theory Spec2Isabelle
  imports Complex_Main "HOL-Library.Sublist" "HOL-Library.List_Lexorder"
begin

section \<open>Resume analyzer: the scoring and suggestion engine of app.py\<close>

subsection \<open>Strings, numbers and errors of the source language\<close>

text \<open>
  A Python \<open>str\<close> is a sequence of Unicode code points, so a text is a list of
  natural numbers; \<open>str\<close> turns an ASCII literal into its code points. The bullet
  \<open>U+2022\<close> and the en dash \<open>U+2013\<close> of the source are written as the numbers
  8226 and 8211. Python's \<open>a in b\<close> on two strings is contiguous containment, which
  is \<^const>\<open>sublist\<close>; comparison of strings (used by \<open>sorted\<close>) is the
  lexicographic order on code points, which is the order of lists over \<open>nat\<close>.
\<close>

type_synonym pystr = "nat list"

definition str :: "string \<Rightarrow> pystr" where
  "str s = map of_char s"

text \<open>
  \<open>str.lower\<close> follows the case tables of the Unicode database, which are not part of
  the repository. Every function that lower-cases its text takes the lower-casing
  function as its first argument \<open>lw\<close>; the theorems hold for every such function.
  \<open>ascii_lower\<close> is what \<open>str.lower\<close> does on ASCII text and is the instance used
  on concrete inputs.
\<close>

definition ascii_lower_cp :: "nat \<Rightarrow> nat" where
  "ascii_lower_cp c = (if 65 \<le> c \<and> c \<le> 90 then c + 32 else c)"

definition ascii_lower :: "pystr \<Rightarrow> pystr" where
  "ascii_lower s = map ascii_lower_cp s"

text \<open>
  \<open>str.split()\<close> without arguments cuts at runs of white space and drops empty
  pieces. \<open>is_space\<close> lists the code points for which \<open>str.isspace\<close> holds.
\<close>

definition is_space :: "nat \<Rightarrow> bool" where
  "is_space c \<longleftrightarrow>
     (9 \<le> c \<and> c \<le> 13) \<or> (28 \<le> c \<and> c \<le> 32) \<or> c = 133 \<or> c = 160 \<or> c = 5760 \<or>
     (8192 \<le> c \<and> c \<le> 8202) \<or> c = 8232 \<or> c = 8233 \<or> c = 8239 \<or> c = 8287 \<or> c = 12288"

fun split_from :: "pystr \<Rightarrow> pystr \<Rightarrow> pystr list" where
  "split_from cur [] = (if cur = [] then [] else [cur])"
| "split_from cur (c # cs) =
     (if is_space c then (if cur = [] then split_from [] cs else cur # split_from [] cs)
      else split_from (cur @ [c]) cs)"

definition py_split :: "pystr \<Rightarrow> pystr list" where
  "py_split s = split_from [] s"

text \<open>\<open>sep.join(xs)\<close>.\<close>

fun py_join :: "pystr \<Rightarrow> pystr list \<Rightarrow> pystr" where
  "py_join sep [] = []"
| "py_join sep [x] = x"
| "py_join sep (x # y # ys) = x @ sep @ py_join sep (y # ys)"

text \<open>
  The scores are Python floats. For the required vocabulary of the source (eight
  skills) every intermediate value is a multiple of \<open>1/4\<close> below 100, on which binary
  floating point is exact, so the values are modelled as rationals. \<open>round(x, 1)\<close>
  rounds the exact value to one decimal, a tie going to the even digit; on an
  \<open>int\<close> it returns the \<open>int\<close> unchanged, which is the same rational. The model
  identifies the float that \<open>round\<close> returns with the one-digit decimal it stands
  for. For a required vocabulary of another length the rational is the ideal value of
  the quotient; only the guard and the empty case are stated for such lists.
\<close>

definition py_round1 :: "rat \<Rightarrow> rat" where
  "py_round1 x =
     (let y = x * 10; f = \<lfloor>y\<rfloor>; d = y - of_int f
      in of_int (if d < 1 / 2 then f else if 1 / 2 < d then f + 1
                 else if even f then f else f + 1) / 10)"

text \<open>\<open>a / b\<close> on two \<open>int\<close>s raises when the divisor is zero.\<close>

datatype error = ZeroDivisionError

definition py_truediv :: "int \<Rightarrow> int \<Rightarrow> error + rat" where
  "py_truediv a b = (if b = 0 then Inl ZeroDivisionError else Inr (of_int a / of_int b))"

subsection \<open>The vocabulary\<close>

definition KNOWN_SKILLS :: "pystr list" where
  "KNOWN_SKILLS = map str
     [''python'', ''java'', ''c'', ''c++'',
      ''html'', ''css'', ''javascript'', ''react'',
      ''node'', ''node.js'', ''flask'', ''django'',
      ''sql'', ''mysql'', ''postgres'', ''mongodb'',
      ''machine learning'', ''ml'', ''deep learning'',
      ''data analysis'', ''data analytics'',
      ''pandas'', ''numpy'', ''scikit-learn'',
      ''git'', ''github'',
      ''aws'', ''azure'', ''gcp'', ''cloud'',
      ''docker'', ''kubernetes'']"

definition REQUIRED_SKILLS :: "pystr list" where
  "REQUIRED_SKILLS = map str
     [''python'', ''html'', ''css'', ''javascript'',
      ''sql'', ''git'', ''github'', ''machine learning'']"

subsection \<open>Skill extraction and the signal detectors\<close>

text \<open>
  \<open>extract_skills\<close> collects the matching skills in a set and returns the set as a
  sorted list.
\<close>

definition extract_skills :: "(pystr \<Rightarrow> pystr) \<Rightarrow> pystr \<Rightarrow> pystr list" where
  "extract_skills lw text =
     (let text_lower = lw text;
          found = fold (\<lambda>skill found. if sublist skill text_lower then insert skill found else found)
                       KNOWN_SKILLS {}
      in sorted_list_of_set found)"

definition has_projects :: "(pystr \<Rightarrow> pystr) \<Rightarrow> pystr \<Rightarrow> bool" where
  "has_projects lw text =
     (let keywords = map str
            [''project'', ''projects'',
             ''built'', ''created'', ''developed'', ''designed'',
             ''implemented'', ''engineered'', ''deployed'',
             ''application'', ''app'', ''system'', ''model''];
          t = lw text
      in list_ex (\<lambda>word. sublist word t) keywords)"

text \<open>
  The body of \<open>formatting_score\<close> is in two parts: \<open>formatting_raw\<close> is the value
  of the variable \<open>score\<close> when the \<open>return\<close> statement is reached, and
  \<open>formatting_score\<close> is what the statement \<open>return min(score, 20)\<close> returns.
\<close>

definition formatting_raw :: "(pystr \<Rightarrow> pystr) \<Rightarrow> pystr \<Rightarrow> int" where
  "formatting_raw lw text =
     (let bullet_chars = [[8226], str ''-'', str ''*''];
          has_bullets = list_ex (\<lambda>char. sublist char text) bullet_chars;
          sections = map str [''education'', ''experience'', ''skills'', ''projects'', ''achievements''];
          section_score = (\<Sum>sec \<leftarrow> filter (\<lambda>sec. sublist sec (lw text)) sections. (1::int));
          score = 0;
          score = (if has_bullets then score + 8 else score);
          score = (if section_score \<ge> 3 then score + 12
                   else if section_score = 2 then score + 8
                   else if section_score = 1 then score + 4
                   else score + 2)
      in score)"

definition formatting_score :: "(pystr \<Rightarrow> pystr) \<Rightarrow> pystr \<Rightarrow> int" where
  "formatting_score lw text = min (formatting_raw lw text) 20"

subsection \<open>The score composer\<close>

text \<open>
  \<open>calculate_score\<close> reads the module's \<open>REQUIRED_SKILLS\<close>. The list is passed
  explicitly to \<open>calculate_score_for\<close>, so that the test \<open>if REQUIRED_SKILLS\<close> and the
  division are branches of the model. The result is the tuple
  \<open>(total_score, round(skill_score, 1), project_score, format_score)\<close>.
\<close>

definition calculate_score_for ::
  "pystr list \<Rightarrow> (pystr \<Rightarrow> pystr) \<Rightarrow> pystr list \<Rightarrow> pystr \<Rightarrow> error + (rat \<times> rat \<times> int \<times> int)" where
  "calculate_score_for required lw extracted_skills text =
     (let matches = (\<Sum>skill \<leftarrow> filter (\<lambda>skill. skill \<in> set extracted_skills) required. (1::int))
      in case (if required \<noteq> []
               then (case py_truediv matches (int (length required)) of
                       Inl e \<Rightarrow> Inl e
                     | Inr q \<Rightarrow> Inr (q * 50))
               else Inr 0) of
           Inl e \<Rightarrow> Inl e
         | Inr skill_score \<Rightarrow>
             (let project_score = (if has_projects lw text then 30 else 10);
                  format_score = formatting_score lw text;
                  total_score = py_round1 (skill_score + of_int project_score + of_int format_score)
              in Inr (total_score, py_round1 skill_score, project_score, format_score)))"

definition calculate_score ::
  "(pystr \<Rightarrow> pystr) \<Rightarrow> pystr list \<Rightarrow> pystr \<Rightarrow> error + (rat \<times> rat \<times> int \<times> int)" where
  "calculate_score lw extracted_skills text =
     calculate_score_for REQUIRED_SKILLS lw extracted_skills text"

subsection \<open>The suggestion generator\<close>

definition msg_missing :: pystr where
  "msg_missing = str ''Try to add or highlight these important skills if you know them: ''"

definition msg_projects :: pystr where
  "msg_projects = str ''Add a '' @ [39] @ str ''Projects'' @ [39] @ str '' section with 2''
     @ [8211] @ str ''3 good projects. ''
     @ str ''Mention what you built, tools/technologies used, and your role.''"

definition msg_short :: pystr where
  "msg_short = str ''Your resume looks quite short. Add more details about your skills, projects, and achievements.''"

definition msg_long :: pystr where
  "msg_long = str ''Your resume seems long. For a fresher, try to keep it to 1 page with the most important points.''"

definition msg_no_skills :: pystr where
  "msg_no_skills = str ''I could not find a clear '' @ [39] @ str ''Skills'' @ [39]
     @ str '' section. Add one and list your tools, languages, and frameworks.''"

definition msg_bullets :: pystr where
  "msg_bullets = str ''Use bullet points to list skills, projects, and experience instead of big paragraphs. ''
     @ str ''This makes the resume easier to read.''"

definition msg_good :: pystr where
  "msg_good = str ''Your resume looks good! You can still refine wording and customize it for each job description.''"

text \<open>
  The list \<open>suggestions\<close> is built by appending; each \<open>if\<close> of the source is one
  binding that either appends or leaves the list as it is.
\<close>

definition generate_suggestions ::
  "(pystr \<Rightarrow> pystr) \<Rightarrow> pystr \<Rightarrow> pystr list \<Rightarrow> pystr list \<times> pystr list" where
  "generate_suggestions lw text extracted_skills =
     (let suggestions = [];
          missing_skills = filter (\<lambda>s. s \<notin> set extracted_skills) REQUIRED_SKILLS;
          suggestions = (if missing_skills \<noteq> []
                         then suggestions @ [msg_missing @ py_join (str '', '') missing_skills]
                         else suggestions);
          suggestions = (if \<not> has_projects lw text then suggestions @ [msg_projects] else suggestions);
          word_count = length (py_split text);
          suggestions = (if word_count < 150 then suggestions @ [msg_short] else suggestions);
          suggestions = (if word_count > 700 then suggestions @ [msg_long] else suggestions);
          suggestions = (if length extracted_skills = 0 then suggestions @ [msg_no_skills] else suggestions);
          bullet_chars = [[8226], str ''-'', str ''*''];
          suggestions = (if \<not> list_ex (\<lambda>char. sublist char text) bullet_chars
                         then suggestions @ [msg_bullets] else suggestions);
          suggestions = (if suggestions = [] then suggestions @ [msg_good] else suggestions)
      in (suggestions, missing_skills))"

subsection \<open>The signals and lists as the specification names them\<close>

text \<open>
  The specification speaks of \<open>hasBullets\<close>, \<open>sectionHitCount\<close>, the section bonus,
  the number of matched required skills, the missing required skills and the six
  prioritised suggestions. These definitions follow its words; the theorems below
  compare them with what the code computes.
\<close>

definition spec_has_bullets :: "pystr \<Rightarrow> bool" where
  "spec_has_bullets text \<longleftrightarrow> 8226 \<in> set text \<or> 45 \<in> set text \<or> 42 \<in> set text"

definition spec_section_hit_count :: "(pystr \<Rightarrow> pystr) \<Rightarrow> pystr \<Rightarrow> nat" where
  "spec_section_hit_count lw text =
     length (filter (\<lambda>sec. sublist sec (lw text))
       (map str [''education'', ''experience'', ''skills'', ''projects'', ''achievements'']))"

definition spec_section_bonus :: "nat \<Rightarrow> int" where
  "spec_section_bonus n = (if n \<ge> 3 then 12 else if n = 2 then 8 else if n = 1 then 4 else 2)"

definition spec_matches :: "pystr list \<Rightarrow> pystr list \<Rightarrow> nat" where
  "spec_matches required extracted_skills = card (set required \<inter> set extracted_skills)"

definition spec_missing :: "pystr list \<Rightarrow> pystr list" where
  "spec_missing extracted_skills = filter (\<lambda>s. s \<notin> set extracted_skills) REQUIRED_SKILLS"

definition spec_six :: "(pystr \<Rightarrow> pystr) \<Rightarrow> pystr \<Rightarrow> pystr list \<Rightarrow> pystr list" where
  "spec_six lw text extracted_skills =
     (if spec_missing extracted_skills \<noteq> []
      then [msg_missing @ py_join (str '', '') (spec_missing extracted_skills)] else [])
     @ (if \<not> has_projects lw text then [msg_projects] else [])
     @ (if length (py_split text) < 150 then [msg_short] else [])
     @ (if length (py_split text) > 700 then [msg_long] else [])
     @ (if extracted_skills = [] then [msg_no_skills] else [])
     @ (if \<not> spec_has_bullets text then [msg_bullets] else [])"

section \<open>Properties\<close>

subsection \<open>Auxiliary facts\<close>

lemma sum_list_ones: "(\<Sum>x \<leftarrow> xs. (1::int)) = int (length xs)"
  by (induction xs) simp_all

lemma sublist_single: "sublist [c] xs \<longleftrightarrow> c \<in> set xs"
  by (induction xs) (auto simp: sublist_Cons_right)

lemma bullets_signal:
  "list_ex (\<lambda>char. sublist char text) [[8226], str ''-'', str ''*''] = spec_has_bullets text"
  by (simp add: str_def spec_has_bullets_def sublist_single)

lemma formatting_raw_eq:
  "formatting_raw lw text =
     (if spec_has_bullets text then 8 else 0) + spec_section_bonus (spec_section_hit_count lw text)"
  unfolding formatting_raw_def Let_def bullets_signal sum_list_ones
  by (simp add: spec_section_bonus_def spec_section_hit_count_def)

lemma formatting_raw_le: "formatting_raw lw text \<le> 20"
  unfolding formatting_raw_eq by (simp add: spec_section_bonus_def)

lemma formatting_score_eq:
  "formatting_score lw text =
     (if spec_has_bullets text then 8 else 0) + spec_section_bonus (spec_section_hit_count lw text)"
  unfolding formatting_score_def using formatting_raw_le [of lw "text"]
  by (simp add: formatting_raw_eq)

lemma formatting_score_range: "formatting_score lw text \<in> {2, 4, 8, 10, 12, 16, 20}"
  unfolding formatting_score_eq by (simp add: spec_section_bonus_def)

lemma py_round1_add_int: "py_round1 (x + of_int n) = py_round1 x + of_int n"
proof -
  have y: "(x + of_int n) * 10 = x * 10 + of_int (10 * n)" by (simp add: algebra_simps)
  have f: "\<lfloor>x * 10 + of_int (10 * n)\<rfloor> = \<lfloor>x * 10\<rfloor> + 10 * n" by (simp only: floor_add_int)
  show ?thesis
    unfolding py_round1_def Let_def y f
    by (simp add: field_simps)
qed

lemma py_round1_tenth: "py_round1 (of_int m / 10) = of_int m / 10"
  by (simp add: py_round1_def Let_def)

lemma py_round1_idem: "py_round1 (py_round1 x) = py_round1 x"
  unfolding py_round1_def[of x] Let_def by (rule py_round1_tenth)

lemma py_round1_skill:
  assumes "k \<le> 8"
  shows "0 \<le> py_round1 (of_int (int k) / of_int 8 * 50) \<and> py_round1 (of_int (int k) / of_int 8 * 50) \<le> 50"
proof -
  from assms have "k \<in> {0, 1, 2, 3, 4, 5, 6, 7, 8}" by auto
  then show ?thesis
    by (auto simp: py_round1_def Let_def)
qed

lemma matches_le: "length (filter P REQUIRED_SKILLS) \<le> 8"
proof -
  have "length (filter P REQUIRED_SKILLS) \<le> length REQUIRED_SKILLS" by (rule length_filter_le)
  also have "length REQUIRED_SKILLS = 8" by (simp add: REQUIRED_SKILLS_def)
  finally show ?thesis .
qed

lemma REQUIRED_SKILLS_length: "length REQUIRED_SKILLS = 8"
  by (simp add: REQUIRED_SKILLS_def)

lemma REQUIRED_SKILLS_distinct: "distinct REQUIRED_SKILLS"
  by (simp add: REQUIRED_SKILLS_def str_def)

lemma matches_card:
  "distinct required \<Longrightarrow>
   length (filter (\<lambda>skill. skill \<in> set es) required) = spec_matches required es"
  by (simp add: distinct_length_filter spec_matches_def Int_commute Collect_mem_eq)

lemma calculate_score_for_nonempty:
  "required \<noteq> [] \<Longrightarrow>
   calculate_score_for required lw es text =
     (let skill_score = of_int (int (length (filter (\<lambda>skill. skill \<in> set es) required)))
                          / of_int (int (length required)) * 50;
          project_score = (if has_projects lw text then 30 else 10);
          format_score = formatting_score lw text
      in Inr (py_round1 (skill_score + of_int project_score + of_int format_score),
              py_round1 skill_score, project_score, format_score))"
  by (simp add: calculate_score_for_def py_truediv_def sum_list_ones Let_def)

lemma calculate_score_for_empty:
  "calculate_score_for [] lw es text =
     (let project_score = (if has_projects lw text then 30 else 10);
          format_score = formatting_score lw text
      in Inr (py_round1 (of_int project_score + of_int format_score), 0, project_score, format_score))"
  by (simp add: calculate_score_for_def Let_def py_round1_def)

lemma calculate_score_eq:
  "calculate_score lw es text =
     (let skill_score = of_int (int (spec_matches REQUIRED_SKILLS es)) / of_int 8 * 50;
          project_score = (if has_projects lw text then 30 else 10);
          format_score = formatting_score lw text
      in Inr (py_round1 (skill_score + of_int project_score + of_int format_score),
              py_round1 skill_score, project_score, format_score))"
proof -
  have ne: "REQUIRED_SKILLS \<noteq> []" by (simp add: REQUIRED_SKILLS_def)
  show ?thesis
    unfolding calculate_score_def calculate_score_for_nonempty[OF ne]
      matches_card[OF REQUIRED_SKILLS_distinct] REQUIRED_SKILLS_length
    by simp
qed

lemma spec_matches_le: "spec_matches REQUIRED_SKILLS es \<le> 8"
  using matches_le[of "\<lambda>skill. skill \<in> set es"] matches_card[OF REQUIRED_SKILLS_distinct, of es]
  by simp

lemma generate_suggestions_eq:
  "generate_suggestions lw text es =
     (if spec_six lw text es = [] then [msg_good] else spec_six lw text es, spec_missing es)"
  unfolding generate_suggestions_def Let_def bullets_signal spec_six_def spec_missing_def
  by simp

lemma msg_distinct:
  "msg_good \<noteq> msg_missing @ x" "msg_good \<noteq> msg_projects" "msg_good \<noteq> msg_short"
  "msg_good \<noteq> msg_long" "msg_good \<noteq> msg_no_skills" "msg_good \<noteq> msg_bullets"
  "msg_short \<noteq> msg_missing @ x" "msg_short \<noteq> msg_projects" "msg_short \<noteq> msg_long"
  "msg_short \<noteq> msg_no_skills" "msg_short \<noteq> msg_bullets"
  "msg_long \<noteq> msg_missing @ x" "msg_long \<noteq> msg_projects"
  "msg_long \<noteq> msg_no_skills" "msg_long \<noteq> msg_bullets"
  "msg_projects \<noteq> msg_missing @ x" "msg_projects \<noteq> msg_no_skills" "msg_projects \<noteq> msg_bullets"
  "msg_bullets \<noteq> msg_missing @ x" "msg_bullets \<noteq> msg_no_skills"
  by (simp_all add: msg_missing_def msg_projects_def msg_no_skills_def msg_bullets_def
      msg_short_def msg_long_def msg_good_def str_def)

lemma fold_found:
  "fold (\<lambda>skill found. if P skill then insert skill found else found) xs A
     = A \<union> {s \<in> set xs. P s}"
  by (induction xs arbitrary: A) auto

lemma extract_skills_eq:
  "extract_skills lw text = sorted_list_of_set {s \<in> set KNOWN_SKILLS. sublist s (lw text)}"
  by (simp add: extract_skills_def Let_def fold_found)

lemma set_extract_skills:
  "set (extract_skills lw text) = {s \<in> set KNOWN_SKILLS. sublist s (lw text)}"
  by (simp add: extract_skills_eq)

lemma strict_lex_sorted:
  "sorted_wrt (\<lambda>a b. (a, b) \<in> lexord {(u, v). u < v}) (extract_skills lw text)"
proof -
  have "sorted_wrt (<) (extract_skills lw text)"
    unfolding extract_skills_eq using strict_sorted_list_of_set by simp
  moreover have "(<) = (\<lambda>a b :: pystr. (a, b) \<in> lexord {(u, v). u < v})"
    by (intro ext) (simp add: list_less_def)
  ultimately show ?thesis by simp
qed

lemma java_in_javascript: "sublist (str ''java'') (str ''javascript'')"
  by (simp add: str_def sublist_Cons_right)

lemma java_known: "str ''java'' \<in> set KNOWN_SKILLS"
  by (simp add: KNOWN_SKILLS_def)

lemma known_nonempty: "[] \<notin> set KNOWN_SKILLS"
  by (simp add: KNOWN_SKILLS_def str_def)

lemma ascii_lower_javascript: "ascii_lower (str ''javascript'') = str ''javascript''"
  by (simp add: ascii_lower_def ascii_lower_cp_def str_def)

lemma ascii_lower_sublist: "sublist xs ys \<Longrightarrow> sublist (ascii_lower xs) (ascii_lower ys)"
  unfolding ascii_lower_def by (rule map_mono_sublist)

lemma py_round1_add_ints:
  "py_round1 (x + of_int a + of_int b) = py_round1 x + of_int a + of_int b"
  by (simp only: py_round1_add_int)

lemma py_round1_skill_bounds:
  "0 \<le> py_round1 (of_int (int (spec_matches REQUIRED_SKILLS es)) / of_int 8 * 50)
   \<and> py_round1 (of_int (int (spec_matches REQUIRED_SKILLS es)) / of_int 8 * 50) \<le> 50"
  by (rule py_round1_skill) (rule spec_matches_le)

lemma formatting_score_bounds: "2 \<le> formatting_score lw text \<and> formatting_score lw text \<le> 20"
  using formatting_score_range[of lw "text"] by auto

lemma REQUIRED_SKILLS_card: "card (set REQUIRED_SKILLS) = 8"
  using distinct_card[OF REQUIRED_SKILLS_distinct] by (simp add: REQUIRED_SKILLS_length)

lemma calculate_score_for_no_error: "calculate_score_for required lw es text \<noteq> Inl e"
  by (cases "required = []")
     (simp_all add: calculate_score_for_empty calculate_score_for_nonempty Let_def)

lemma formatting_score_values:
  "formatting_score ascii_lower [] = 2"
  "formatting_score ascii_lower (str ''skills'') = 4"
  "formatting_score ascii_lower (str ''skills projects'') = 8"
  "formatting_score ascii_lower (str ''-'') = 10"
  "formatting_score ascii_lower (str ''* skills'') = 12"
  "formatting_score ascii_lower (str ''- skills projects'') = 16"
  "formatting_score ascii_lower (8226 # str '' skills projects education'') = 20"
  by (simp_all add: formatting_score_eq spec_section_hit_count_def ascii_lower_def ascii_lower_cp_def
      spec_has_bullets_def spec_section_bonus_def str_def sublist_Cons_right)

lemma six_empty:
  "spec_six lw text es = [] \<longleftrightarrow>
     spec_missing es = [] \<and> has_projects lw text \<and> \<not> length (py_split text) < 150
     \<and> \<not> length (py_split text) > 700 \<and> es \<noteq> [] \<and> spec_has_bullets text"
  by (simp add: spec_six_def)

lemma good_not_in_six: "msg_good \<notin> set (spec_six lw text es)"
  by (simp add: spec_six_def msg_distinct)

lemma projects_in_six: "msg_projects \<in> set (spec_six lw text es) \<longleftrightarrow> \<not> has_projects lw text"
  using msg_distinct [symmetric] by (simp add: spec_six_def msg_distinct)

lemma short_in_six: "msg_short \<in> set (spec_six lw text es) \<longleftrightarrow> length (py_split text) < 150"
  using msg_distinct [symmetric] by (simp add: spec_six_def msg_distinct)

lemma long_in_six: "msg_long \<in> set (spec_six lw text es) \<longleftrightarrow> length (py_split text) > 700"
  using msg_distinct [symmetric] by (simp add: spec_six_def msg_distinct)

lemma bullets_in_six: "msg_bullets \<in> set (spec_six lw text es) \<longleftrightarrow> \<not> spec_has_bullets text"
  using msg_distinct [symmetric] by (simp add: spec_six_def msg_distinct)

lemma suggestions_set:
  "m \<noteq> msg_good \<Longrightarrow>
   m \<in> set (fst (generate_suggestions lw text es)) \<longleftrightarrow> m \<in> set (spec_six lw text es)"
  by (simp add: generate_suggestions_eq)

lemma split_words: "py_split (concat (replicate n (str ''a ''))) = replicate n (str ''a'')"
  unfolding py_split_def
  by (induction n) (simp_all add: str_def is_space_def)

lemma no_skills_not_missing: "msg_missing @ x \<noteq> msg_no_skills"
  by (simp add: msg_missing_def msg_no_skills_def str_def)

lemma missing_in_six:
  "msg_missing @ py_join (str '', '') (spec_missing es) \<in> set (spec_six lw text es)
     \<longleftrightarrow> spec_missing es \<noteq> []"
  using msg_distinct [symmetric] no_skills_not_missing by (simp add: spec_six_def)

lemma spec_missing_all: "spec_missing [] = REQUIRED_SKILLS"
  by (simp add: spec_missing_def)

lemma spec_missing_none: "spec_missing REQUIRED_SKILLS = []"
  by (simp add: spec_missing_def)

lemma no_projects_hello: "\<not> has_projects ascii_lower (str ''hello'')"
  by (simp add: has_projects_def ascii_lower_def ascii_lower_cp_def str_def sublist_Cons_right)

lemma split_words_built:
  "py_split (str ''built - '' @ concat (replicate n (str ''a '')))
     = str ''built'' # str ''-'' # replicate n (str ''a'')"
  using split_words [of n] unfolding py_split_def
  by (simp add: str_def is_space_def)

lemma split_hello: "py_split (str ''hello'') = [str ''hello'']"
  by (simp add: py_split_def str_def is_space_def)

lemma join_required:
  "py_join (str '', '') REQUIRED_SKILLS
     = str ''python, html, css, javascript, sql, git, github, machine learning''"
  by (simp add: REQUIRED_SKILLS_def str_def)

lemma has_projects_built_dash: "has_projects ascii_lower (str ''built - '' @ t)"
  by (simp add: has_projects_def ascii_lower_def ascii_lower_cp_def str_def sublist_Cons_right)

lemma bullets_built: "spec_has_bullets (str ''built - '' @ t)"
  by (simp add: spec_has_bullets_def str_def)

lemma no_bullets_hello: "\<not> spec_has_bullets (str ''hello'')"
  by (simp add: spec_has_bullets_def str_def)

subsection \<open>Skill extraction\<close>

text \<open>
  Claim C2. For every text, \<open>extract_skills\<close> returns a list that is strictly
  increasing in the lexicographic order on code points, all of whose members are
  known skills, and a known skill is a member if and only if it is contained in the
  lower-cased text. Hence whenever \<open>javascript\<close> occurs in the lower-cased text the
  result contains \<open>java\<close>; with the ASCII lower-casing this is so for every text in
  which \<open>javascript\<close> occurs. The empty text, which lower-cases to itself, gives the
  empty result.
\<close>

theorem extract_skills_sorted_subset:
  "sorted_wrt (\<lambda>a b. (a, b) \<in> lexord {(u, v). u < v}) (extract_skills lw text)
   \<and> set (extract_skills lw text) \<subseteq> set KNOWN_SKILLS
   \<and> (\<forall>skill \<in> set KNOWN_SKILLS.
         skill \<in> set (extract_skills lw text) \<longleftrightarrow> sublist skill (lw text))
   \<and> (sublist (str ''javascript'') (lw text) \<longrightarrow> str ''java'' \<in> set (extract_skills lw text))
   \<and> (sublist (str ''javascript'') text \<longrightarrow> str ''java'' \<in> set (extract_skills ascii_lower text))
   \<and> (lw [] = [] \<longrightarrow> extract_skills lw [] = [])"
proof (intro conjI)
  show "sorted_wrt (\<lambda>a b. (a, b) \<in> lexord {(u, v). u < v}) (extract_skills lw text)"
    by (rule strict_lex_sorted)
  show "set (extract_skills lw text) \<subseteq> set KNOWN_SKILLS"
    by (auto simp: set_extract_skills)
  show "\<forall>skill \<in> set KNOWN_SKILLS.
         skill \<in> set (extract_skills lw text) \<longleftrightarrow> sublist skill (lw text)"
    by (simp add: set_extract_skills)
  show "sublist (str ''javascript'') (lw text) \<longrightarrow> str ''java'' \<in> set (extract_skills lw text)"
  proof
    assume "sublist (str ''javascript'') (lw text)"
    with java_in_javascript have "sublist (str ''java'') (lw text)"
      by (rule sublist_order.order_trans)
    then show "str ''java'' \<in> set (extract_skills lw text)"
      by (simp add: set_extract_skills java_known)
  qed
  show "sublist (str ''javascript'') text \<longrightarrow> str ''java'' \<in> set (extract_skills ascii_lower text)"
  proof
    assume "sublist (str ''javascript'') text"
    then have "sublist (str ''javascript'') (ascii_lower text)"
      using ascii_lower_sublist[of "str ''javascript''" "text"] by (simp add: ascii_lower_javascript)
    with java_in_javascript have "sublist (str ''java'') (ascii_lower text)"
      by (rule sublist_order.order_trans)
    then show "str ''java'' \<in> set (extract_skills ascii_lower text)"
      by (simp add: set_extract_skills java_known)
  qed
  show "lw [] = [] \<longrightarrow> extract_skills lw [] = []"
  proof
    assume e: "lw [] = []"
    have "{s \<in> set KNOWN_SKILLS. sublist s (lw [])} = {}"
      using known_nonempty by (auto simp: e)
    then show "extract_skills lw [] = []"
      by (simp add: extract_skills_eq)
  qed
qed

theorem extract_skills_sorted_subset_witness:
  "sublist (str ''javascript'') (str ''javascript developer'')
   \<and> sublist (str ''javascript'') (ascii_lower (str ''javascript developer''))
   \<and> str ''java'' \<in> set (extract_skills ascii_lower (str ''javascript developer''))
   \<and> str ''python'' \<in> set KNOWN_SKILLS
   \<and> str ''python'' \<notin> set (extract_skills ascii_lower (str ''javascript developer''))
   \<and> ascii_lower [] = [] \<and> extract_skills ascii_lower [] = []"
proof -
  have raw: "sublist (str ''javascript'') (str ''javascript developer'')"
    by (simp add: str_def sublist_Cons_right)
  have low: "ascii_lower (str ''javascript developer'') = str ''javascript developer''"
    by (simp add: ascii_lower_def ascii_lower_cp_def str_def)
  have py: "str ''python'' \<in> set KNOWN_SKILLS"
    by (simp add: KNOWN_SKILLS_def)
  have no_py: "\<not> sublist (str ''python'') (str ''javascript developer'')"
    by (simp add: str_def sublist_Cons_right)
  have emp: "ascii_lower [] = []"
    by (simp add: ascii_lower_def)
  show ?thesis
    using extract_skills_sorted_subset [of ascii_lower "str ''javascript developer''"]
      raw low py no_py emp
    by simp
qed

subsection \<open>The score composer\<close>

text \<open>
  Claim C1. For every list of extracted skills and every text, \<open>calculate_score\<close>
  returns a tuple whose total equals \<open>round(skillScore + projectScore + formatScore, 1)\<close>
  of the three sub-scores returned with it, and the total lies between 0 and 100.
\<close>

theorem calculate_score_total_round_bounds:
  "\<exists>total skill pj fm.
      calculate_score lw es text = Inr (total, skill, pj, fm)
      \<and> total = py_round1 (skill + of_int pj + of_int fm)
      \<and> 0 \<le> total \<and> total \<le> 100"
proof -
  define sk :: rat where "sk = of_int (int (spec_matches REQUIRED_SKILLS es)) / of_int 8 * 50"
  define pj :: int where "pj = (if has_projects lw text then 30 else 10)"
  define fm where "fm = formatting_score lw text"
  have eq: "calculate_score lw es text
      = Inr (py_round1 (sk + of_int pj + of_int fm), py_round1 sk, pj, fm)"
    by (simp add: calculate_score_eq Let_def sk_def pj_def fm_def)
  have tot: "py_round1 (sk + of_int pj + of_int fm) = py_round1 sk + of_int pj + of_int fm"
    by (rule py_round1_add_ints)
  have again: "py_round1 (py_round1 sk + of_int pj + of_int fm) = py_round1 sk + of_int pj + of_int fm"
    by (simp only: py_round1_add_ints py_round1_idem)
  have sk: "0 \<le> py_round1 sk" "py_round1 sk \<le> 50"
    using py_round1_skill_bounds[of es] by (simp_all add: sk_def)
  have pj: "10 \<le> pj" "pj \<le> 30" by (simp_all add: pj_def)
  have fm: "2 \<le> fm" "fm \<le> 20" using formatting_score_bounds[of lw "text"] by (simp_all add: fm_def)
  have pjr: "(10::rat) \<le> of_int pj" "of_int pj \<le> (30::rat)"
    using pj by (simp_all add: pj_def)
  have fmr: "(2::rat) \<le> of_int fm" "of_int fm \<le> (20::rat)"
    using fm by linarith+
  have "0 \<le> py_round1 sk + of_int pj + of_int fm" using sk pjr fmr by linarith
  moreover have "py_round1 sk + of_int pj + of_int fm \<le> 100" using sk pjr fmr by linarith
  ultimately show ?thesis
    using eq tot again by auto
qed

theorem calculate_score_total_round_bounds_witness:
  "calculate_score ascii_lower [str ''python''] (str ''I built a parser'') = Inr (191 / 5, 31 / 5, 30, 2)
   \<and> (\<exists>total skill pj fm.
         calculate_score ascii_lower [str ''python''] (str ''I built a parser'') = Inr (total, skill, pj, fm)
         \<and> total = py_round1 (skill + of_int pj + of_int fm) \<and> 0 \<le> total \<and> total \<le> 100)"
proof -
  have "calculate_score ascii_lower [str ''python''] (str ''I built a parser'') = Inr (191 / 5, 31 / 5, 30, 2)"
    by code_simp
  then show ?thesis
    using calculate_score_total_round_bounds [of ascii_lower "[str ''python'']" "str ''I built a parser''"]
    by blast
qed

text \<open>
  Claim C6. For every list of extracted skills the returned skill score is
  \<open>|required \<inter> extracted| / |required| * 50\<close> rounded to one decimal. With an empty
  required vocabulary the skill score is 0, and for no required vocabulary at all does
  the division raise \<open>ZeroDivisionError\<close>: it is only reached behind the guard.
\<close>

theorem calculate_score_skill_score_guarded:
  "(\<exists>total pj fm.
      calculate_score lw es text
        = Inr (total,
               py_round1 (of_nat (card (set REQUIRED_SKILLS \<inter> set es))
                            / of_nat (card (set REQUIRED_SKILLS)) * 50),
               pj, fm))
   \<and> (\<exists>total pj fm. calculate_score_for [] lw es text = Inr (total, 0, pj, fm))
   \<and> (\<forall>required. calculate_score_for required lw es text \<noteq> Inl ZeroDivisionError)"
proof (intro conjI allI)
  show "\<exists>total pj fm.
      calculate_score lw es text
        = Inr (total,
               py_round1 (of_nat (card (set REQUIRED_SKILLS \<inter> set es))
                            / of_nat (card (set REQUIRED_SKILLS)) * 50),
               pj, fm)"
    by (simp add: calculate_score_eq Let_def REQUIRED_SKILLS_card spec_matches_def)
  show "\<exists>total pj fm. calculate_score_for [] lw es text = Inr (total, 0, pj, fm)"
    by (simp add: calculate_score_for_empty Let_def)
  show "calculate_score_for required lw es text \<noteq> Inl ZeroDivisionError" for required
    by (rule calculate_score_for_no_error)
qed

theorem calculate_score_skill_score_guarded_witness:
  "calculate_score ascii_lower [str ''git'', str ''sql'', str ''rust''] (str ''x'') = Inr (49 / 2, 25 / 2, 10, 2)
   \<and> py_round1 (of_nat (card (set REQUIRED_SKILLS \<inter> set [str ''git'', str ''sql'', str ''rust'']))
                  / of_nat (card (set REQUIRED_SKILLS)) * 50) = 25 / 2
   \<and> calculate_score_for [] ascii_lower [str ''git''] (str ''x'') = Inr (12, 0, 10, 2)
   \<and> calculate_score_for [] ascii_lower [str ''git''] (str ''x'') \<noteq> Inl ZeroDivisionError"
proof -
  have a: "calculate_score ascii_lower [str ''git'', str ''sql'', str ''rust''] (str ''x'') = Inr (49 / 2, 25 / 2, 10, 2)"
    by code_simp
  have b: "calculate_score_for [] ascii_lower [str ''git''] (str ''x'') = Inr (12, 0, 10, 2)"
    by code_simp
  show ?thesis
    using calculate_score_skill_score_guarded [of ascii_lower "[str ''git'', str ''sql'', str ''rust'']" "str ''x''"]
      calculate_score_skill_score_guarded [of ascii_lower "[str ''git'']" "str ''x''"]
    unfolding a b by simp
qed

text \<open>
  Claim C7. For every text the project score is exactly 30 when \<open>has_projects\<close>
  holds of the text and exactly 10 otherwise.
\<close>

theorem calculate_score_project_score:
  "\<exists>total skill fm.
      calculate_score lw es text = Inr (total, skill, if has_projects lw text then 30 else 10, fm)"
  by (simp add: calculate_score_eq Let_def)

theorem calculate_score_project_score_witness:
  "has_projects ascii_lower (str ''Deployed a web app'')
   \<and> \<not> has_projects ascii_lower (str ''I like cooking'')
   \<and> (\<exists>total skill fm. calculate_score ascii_lower [] (str ''Deployed a web app'') = Inr (total, skill, 30, fm))
   \<and> (\<exists>total skill fm. calculate_score ascii_lower [] (str ''I like cooking'') = Inr (total, skill, 10, fm))"
proof -
  have yes: "has_projects ascii_lower (str ''Deployed a web app'')" by code_simp
  have no: "\<not> has_projects ascii_lower (str ''I like cooking'')" by code_simp
  show ?thesis
    using calculate_score_project_score [of ascii_lower "[]" "str ''Deployed a web app''"]
      calculate_score_project_score [of ascii_lower "[]" "str ''I like cooking''"] yes no
    by simp
qed

text \<open>
  Claim C10. For every text and every list of extracted skills the total is at least
  12: the skill score is never negative, the project score never below 10 and the
  format score never below 2. The bound is attained on the empty text with no skills.
\<close>

theorem calculate_score_total_at_least_12:
  "(\<exists>total skill pj fm.
      calculate_score lw es text = Inr (total, skill, pj, fm)
      \<and> 0 \<le> skill \<and> 10 \<le> pj \<and> 2 \<le> fm \<and> 12 \<le> total)
   \<and> calculate_score ascii_lower [] [] = Inr (12, 0, 10, 2)"
proof
  define sk :: rat where "sk = of_int (int (spec_matches REQUIRED_SKILLS es)) / of_int 8 * 50"
  define pj :: int where "pj = (if has_projects lw text then 30 else 10)"
  define fm where "fm = formatting_score lw text"
  have eq: "calculate_score lw es text
      = Inr (py_round1 (sk + of_int pj + of_int fm), py_round1 sk, pj, fm)"
    by (simp add: calculate_score_eq Let_def sk_def pj_def fm_def)
  have tot: "py_round1 (sk + of_int pj + of_int fm) = py_round1 sk + of_int pj + of_int fm"
    by (rule py_round1_add_ints)
  have sk: "0 \<le> py_round1 sk"
    using py_round1_skill_bounds[of es] by (simp add: sk_def)
  have pj: "10 \<le> pj" by (simp add: pj_def)
  have fm: "2 \<le> fm" using formatting_score_bounds[of lw "text"] by (simp add: fm_def)
  have pjr: "(10::rat) \<le> of_int pj" using pj by (simp add: pj_def)
  have fmr: "(2::rat) \<le> of_int fm" using fm by linarith
  have "12 \<le> py_round1 sk + of_int pj + of_int fm" using sk pjr fmr by linarith
  then show "\<exists>total skill pj fm.
      calculate_score lw es text = Inr (total, skill, pj, fm)
      \<and> 0 \<le> skill \<and> 10 \<le> pj \<and> 2 \<le> fm \<and> 12 \<le> total"
    using eq tot sk pj fm by auto
next
  show "calculate_score ascii_lower [] [] = Inr (12, 0, 10, 2)"
    by code_simp
qed

theorem calculate_score_total_at_least_12_witness:
  "calculate_score ascii_lower [str ''css''] (str ''plain words'') = Inr (91 / 5, 31 / 5, 10, 2)
   \<and> (12::rat) \<le> 91 / 5
   \<and> calculate_score ascii_lower [] [] = Inr (12, 0, 10, 2)"
proof -
  have a: "calculate_score ascii_lower [str ''css''] (str ''plain words'') = Inr (91 / 5, 31 / 5, 10, 2)"
    by code_simp
  show ?thesis
    using calculate_score_total_at_least_12 [of ascii_lower "[str ''css'']" "str ''plain words''"]
    unfolding a by simp
qed

text \<open>
  Claim C5. For every text the format score is 8 for bullets (0 without) plus the
  section bonus: 12 for three or more section names, 8 for two, 4 for one, 2 for none.
  It lies in \<open>{2, 4, 8, 10, 12, 16, 20}\<close>, each of which is taken on some text. The
  sum that reaches \<open>return min(score, 20)\<close> is never above 20, so the clamp never
  changes it: the function returns the sum itself.
\<close>

theorem formatting_score_step_function:
  "formatting_score lw text
     = (if spec_has_bullets text then 8 else 0) + spec_section_bonus (spec_section_hit_count lw text)
   \<and> formatting_score lw text \<in> {2, 4, 8, 10, 12, 16, 20}
   \<and> formatting_raw lw text
     = (if spec_has_bullets text then 8 else 0) + spec_section_bonus (spec_section_hit_count lw text)
   \<and> formatting_raw lw text \<le> 20
   \<and> min (formatting_raw lw text) 20 = formatting_raw lw text
   \<and> formatting_score lw text = formatting_raw lw text
   \<and> spec_section_hit_count lw text \<le> 5
   \<and> {2, 4, 8, 10, 12, 16, 20} \<subseteq> range (formatting_score ascii_lower)"
proof (intro conjI)
  show "formatting_score lw text
     = (if spec_has_bullets text then 8 else 0) + spec_section_bonus (spec_section_hit_count lw text)"
    by (rule formatting_score_eq)
  show "formatting_score lw text \<in> {2, 4, 8, 10, 12, 16, 20}"
    by (rule formatting_score_range)
  show "formatting_raw lw text
     = (if spec_has_bullets text then 8 else 0) + spec_section_bonus (spec_section_hit_count lw text)"
    by (rule formatting_raw_eq)
  show le: "formatting_raw lw text \<le> 20"
    by (rule formatting_raw_le)
  from le show clamp: "min (formatting_raw lw text) 20 = formatting_raw lw text"
    by (rule min_absorb1)
  from clamp show "formatting_score lw text = formatting_raw lw text"
    by (simp only: formatting_score_def)
  have "spec_section_hit_count lw text
      \<le> length (map str [''education'', ''experience'', ''skills'', ''projects'', ''achievements''])"
    unfolding spec_section_hit_count_def by (rule length_filter_le)
  then show "spec_section_hit_count lw text \<le> 5" by simp
  show "{2, 4, 8, 10, 12, 16, 20} \<subseteq> range (formatting_score ascii_lower)"
    using formatting_score_values [symmetric] by (auto intro: range_eqI)
qed

theorem formatting_score_step_function_witness:
  "spec_has_bullets (8226 # str '' skills projects education'')
   \<and> spec_section_hit_count ascii_lower (8226 # str '' skills projects education'') = 3
   \<and> formatting_raw ascii_lower (8226 # str '' skills projects education'') = 8 + 12
   \<and> min (formatting_raw ascii_lower (8226 # str '' skills projects education'')) 20 = 20
   \<and> formatting_score ascii_lower (8226 # str '' skills projects education'') = 20
   \<and> (20::int) \<in> {2, 4, 8, 10, 12, 16, 20}"
proof -
  have b: "spec_has_bullets (8226 # str '' skills projects education'')"
    by (simp add: spec_has_bullets_def)
  have n: "spec_section_hit_count ascii_lower (8226 # str '' skills projects education'') = 3"
    by (simp add: spec_section_hit_count_def ascii_lower_def ascii_lower_cp_def str_def
        sublist_Cons_right)
  show ?thesis
    using formatting_score_step_function [of ascii_lower "8226 # str '' skills projects education''"] b n
    by (simp add: spec_section_bonus_def)
qed

subsection \<open>The suggestion generator\<close>

text \<open>
  Claim C9. The score composer and the suggestion generator read the same signals of
  a text: for every text and list of extracted skills, the suggestion to add a
  Projects section is in the report if and only if the project score is 10, and the
  suggestion to use bullet points is in the report if and only if the bullets
  contribute 0 to the format score (the format score less its section bonus).
\<close>

theorem suggestions_agree_with_scores:
  "\<exists>total skill pj fm.
      calculate_score lw es text = Inr (total, skill, pj, fm)
      \<and> (msg_projects \<in> set (fst (generate_suggestions lw text es)) \<longleftrightarrow> pj = 10)
      \<and> (msg_bullets \<in> set (fst (generate_suggestions lw text es))
           \<longleftrightarrow> fm - spec_section_bonus (spec_section_hit_count lw text) = 0)"
proof -
  have p: "msg_projects \<in> set (fst (generate_suggestions lw text es)) \<longleftrightarrow> \<not> has_projects lw text"
    using suggestions_set [of msg_projects lw "text" es] msg_distinct(2)
    by (simp add: projects_in_six)
  have b: "msg_bullets \<in> set (fst (generate_suggestions lw text es)) \<longleftrightarrow> \<not> spec_has_bullets text"
    using suggestions_set [of msg_bullets lw "text" es] msg_distinct(6)
    by (simp add: bullets_in_six)
  have f: "formatting_score lw text - spec_section_bonus (spec_section_hit_count lw text) = 0
      \<longleftrightarrow> \<not> spec_has_bullets text"
    by (simp add: formatting_score_eq)
  show ?thesis
    unfolding p b calculate_score_eq Let_def
    using f by simp
qed

theorem suggestions_agree_with_scores_witness:
  "calculate_score ascii_lower [] (str ''- built it'') = Inr (40, 0, 30, 10)
   \<and> msg_projects \<notin> set (fst (generate_suggestions ascii_lower (str ''- built it'') []))
   \<and> msg_bullets \<notin> set (fst (generate_suggestions ascii_lower (str ''- built it'') []))
   \<and> calculate_score ascii_lower [] (str ''hello'') = Inr (12, 0, 10, 2)
   \<and> msg_projects \<in> set (fst (generate_suggestions ascii_lower (str ''hello'') []))
   \<and> msg_bullets \<in> set (fst (generate_suggestions ascii_lower (str ''hello'') []))"
proof -
  have a: "calculate_score ascii_lower [] (str ''- built it'') = Inr (40, 0, 30, 10)"
    by code_simp
  have b: "calculate_score ascii_lower [] (str ''hello'') = Inr (12, 0, 10, 2)"
    by code_simp
  have n: "spec_section_hit_count ascii_lower (str ''- built it'') = 0"
    "spec_section_hit_count ascii_lower (str ''hello'') = 0"
    by (simp_all add: spec_section_hit_count_def ascii_lower_def ascii_lower_cp_def str_def
        sublist_Cons_right)
  show ?thesis
    using suggestions_agree_with_scores [of ascii_lower "[]" "str ''- built it''"]
      suggestions_agree_with_scores [of ascii_lower "[]" "str ''hello''"]
    unfolding a b n by (simp add: spec_section_bonus_def)
qed

text \<open>
  Claim C3. The report lists the suggestions in one fixed order: missing required
  skills, no projects, too short, too long, no skills detected, no bullets, each
  present exactly when its condition holds. The fallback "looks good" is in the report
  if and only if none of the six conditions holds.
\<close>

theorem generate_suggestions_priority_order:
  "fst (generate_suggestions lw text es) =
     (let six =
        (if spec_missing es \<noteq> [] then [msg_missing @ py_join (str '', '') (spec_missing es)] else [])
        @ (if \<not> has_projects lw text then [msg_projects] else [])
        @ (if length (py_split text) < 150 then [msg_short] else [])
        @ (if length (py_split text) > 700 then [msg_long] else [])
        @ (if es = [] then [msg_no_skills] else [])
        @ (if \<not> spec_has_bullets text then [msg_bullets] else [])
      in if six = [] then [msg_good] else six)
   \<and> (msg_good \<in> set (fst (generate_suggestions lw text es)) \<longleftrightarrow>
        \<not> (spec_missing es \<noteq> [] \<or> \<not> has_projects lw text \<or> length (py_split text) < 150
           \<or> length (py_split text) > 700 \<or> es = [] \<or> \<not> spec_has_bullets text))"
proof
  show "fst (generate_suggestions lw text es) =
     (let six =
        (if spec_missing es \<noteq> [] then [msg_missing @ py_join (str '', '') (spec_missing es)] else [])
        @ (if \<not> has_projects lw text then [msg_projects] else [])
        @ (if length (py_split text) < 150 then [msg_short] else [])
        @ (if length (py_split text) > 700 then [msg_long] else [])
        @ (if es = [] then [msg_no_skills] else [])
        @ (if \<not> spec_has_bullets text then [msg_bullets] else [])
      in if six = [] then [msg_good] else six)"
    unfolding generate_suggestions_eq Let_def spec_six_def [symmetric] by simp
  have "msg_good \<in> set (fst (generate_suggestions lw text es)) \<longleftrightarrow> spec_six lw text es = []"
    using good_not_in_six [of lw "text" es] by (simp add: generate_suggestions_eq)
  then show "msg_good \<in> set (fst (generate_suggestions lw text es)) \<longleftrightarrow>
        \<not> (spec_missing es \<noteq> [] \<or> \<not> has_projects lw text \<or> length (py_split text) < 150
           \<or> length (py_split text) > 700 \<or> es = [] \<or> \<not> spec_has_bullets text)"
    unfolding six_empty by blast
qed

theorem generate_suggestions_priority_order_witness:
  "fst (generate_suggestions ascii_lower (str ''hello'') [])
     = [msg_missing @ str ''python, html, css, javascript, sql, git, github, machine learning'',
        msg_projects, msg_short, msg_no_skills, msg_bullets]
   \<and> msg_good \<notin> set (fst (generate_suggestions ascii_lower (str ''hello'') []))
   \<and> fst (generate_suggestions ascii_lower
             (str ''built - '' @ concat (replicate 150 (str ''a ''))) REQUIRED_SKILLS) = [msg_good]
   \<and> msg_good \<in> set (fst (generate_suggestions ascii_lower
             (str ''built - '' @ concat (replicate 150 (str ''a ''))) REQUIRED_SKILLS))"
proof -
  have ne: "REQUIRED_SKILLS \<noteq> []" by (simp add: REQUIRED_SKILLS_def)
  have one: "fst (generate_suggestions ascii_lower (str ''hello'') [])
     = [msg_missing @ str ''python, html, css, javascript, sql, git, github, machine learning'',
        msg_projects, msg_short, msg_no_skills, msg_bullets]"
    using generate_suggestions_priority_order [of ascii_lower "str ''hello''" "[]"]
    by (simp add: Let_def spec_missing_all join_required no_projects_hello split_hello
        no_bullets_hello ne)
  have two: "fst (generate_suggestions ascii_lower
             (str ''built - '' @ concat (replicate 150 (str ''a ''))) REQUIRED_SKILLS) = [msg_good]"
    using generate_suggestions_priority_order [of ascii_lower
        "str ''built - '' @ concat (replicate 150 (str ''a ''))" REQUIRED_SKILLS]
    by (simp add: Let_def spec_missing_none has_projects_built_dash split_words_built bullets_built ne)
  show ?thesis
    unfolding one two by (simp add: msg_distinct)
qed

text \<open>
  Claim C4. For every text and list of extracted skills the second component of the
  report is the required vocabulary without the extracted skills, in the order of the
  required vocabulary. It is returned whether or not the suggestion naming the missing
  skills was appended, which happens exactly when the list is not empty.
\<close>

theorem generate_suggestions_missing_skills:
  "snd (generate_suggestions lw text es) = filter (\<lambda>s. s \<notin> set es) REQUIRED_SKILLS
   \<and> set (snd (generate_suggestions lw text es)) = set REQUIRED_SKILLS - set es
   \<and> subseq (snd (generate_suggestions lw text es)) REQUIRED_SKILLS
   \<and> (msg_missing @ py_join (str '', '') (snd (generate_suggestions lw text es))
         \<in> set (fst (generate_suggestions lw text es))
       \<longleftrightarrow> snd (generate_suggestions lw text es) \<noteq> [])"
proof (intro conjI)
  show m: "snd (generate_suggestions lw text es) = filter (\<lambda>s. s \<notin> set es) REQUIRED_SKILLS"
    by (simp add: generate_suggestions_eq spec_missing_def)
  show "set (snd (generate_suggestions lw text es)) = set REQUIRED_SKILLS - set es"
    unfolding m by auto
  show "subseq (snd (generate_suggestions lw text es)) REQUIRED_SKILLS"
    unfolding m by (rule subseq_filter_left)
  have "msg_missing @ py_join (str '', '') (spec_missing es) \<noteq> msg_good"
    using msg_distinct(1) [of "py_join (str '', '') (spec_missing es)"] by simp
  then show "msg_missing @ py_join (str '', '') (snd (generate_suggestions lw text es))
         \<in> set (fst (generate_suggestions lw text es))
       \<longleftrightarrow> snd (generate_suggestions lw text es) \<noteq> []"
    using missing_in_six [of es lw "text"] six_empty [of lw "text" es]
    by (auto simp: generate_suggestions_eq)
qed

theorem generate_suggestions_missing_skills_witness:
  "snd (generate_suggestions ascii_lower (str ''hello'') [str ''sql'', str ''rust'', str ''python''])
     = [str ''html'', str ''css'', str ''javascript'', str ''git'', str ''github'', str ''machine learning'']
   \<and> msg_missing @ str ''html, css, javascript, git, github, machine learning''
        \<in> set (fst (generate_suggestions ascii_lower (str ''hello'') [str ''sql'', str ''rust'', str ''python'']))
   \<and> snd (generate_suggestions ascii_lower (str ''hello'') REQUIRED_SKILLS) = []
   \<and> msg_missing \<notin> set (fst (generate_suggestions ascii_lower (str ''hello'') REQUIRED_SKILLS))"
proof -
  have f: "filter (\<lambda>s. s \<notin> set [str ''sql'', str ''rust'', str ''python'']) REQUIRED_SKILLS
      = [str ''html'', str ''css'', str ''javascript'', str ''git'', str ''github'', str ''machine learning'']"
    by (simp add: REQUIRED_SKILLS_def str_def)
  have j: "py_join (str '', '')
        [str ''html'', str ''css'', str ''javascript'', str ''git'', str ''github'', str ''machine learning'']
      = str ''html, css, javascript, git, github, machine learning''"
    by (simp add: str_def)
  have g: "filter (\<lambda>s. s \<notin> set REQUIRED_SKILLS) REQUIRED_SKILLS = []"
    by simp
  note A = generate_suggestions_missing_skills
        [of ascii_lower "str ''hello''" "[str ''sql'', str ''rust'', str ''python'']", unfolded f]
  note B = generate_suggestions_missing_skills [of ascii_lower "str ''hello''" REQUIRED_SKILLS, unfolded g]
  from A have a1: "snd (generate_suggestions ascii_lower (str ''hello'') [str ''sql'', str ''rust'', str ''python''])
     = [str ''html'', str ''css'', str ''javascript'', str ''git'', str ''github'', str ''machine learning'']"
    by (rule conjunct1)
  from B have b1: "snd (generate_suggestions ascii_lower (str ''hello'') REQUIRED_SKILLS) = []"
    by (rule conjunct1)
  from A have a2: "msg_missing @ str ''html, css, javascript, git, github, machine learning''
        \<in> set (fst (generate_suggestions ascii_lower (str ''hello'') [str ''sql'', str ''rust'', str ''python'']))"
    unfolding a1 j by simp
  from B have b2: "msg_missing \<notin> set (fst (generate_suggestions ascii_lower (str ''hello'') REQUIRED_SKILLS))"
    unfolding b1 by simp
  from a1 a2 b1 b2 show ?thesis by blast
qed

text \<open>
  Claim C8. The length thresholds are strict: the too-short suggestion is in the
  report exactly for fewer than 150 words and the too-long suggestion exactly for more
  than 700. So a text of exactly 150 words is not called short, a text of exactly 700
  words is not called long, and no report holds both suggestions.
\<close>

theorem length_thresholds_strict:
  "(msg_short \<in> set (fst (generate_suggestions lw text es)) \<longleftrightarrow> length (py_split text) < 150)
   \<and> (msg_long \<in> set (fst (generate_suggestions lw text es)) \<longleftrightarrow> length (py_split text) > 700)
   \<and> (length (py_split text) = 150 \<longrightarrow> msg_short \<notin> set (fst (generate_suggestions lw text es)))
   \<and> (length (py_split text) = 700 \<longrightarrow> msg_long \<notin> set (fst (generate_suggestions lw text es)))
   \<and> \<not> (msg_short \<in> set (fst (generate_suggestions lw text es))
          \<and> msg_long \<in> set (fst (generate_suggestions lw text es)))"
proof -
  have s: "msg_short \<in> set (fst (generate_suggestions lw text es)) \<longleftrightarrow> length (py_split text) < 150"
    using suggestions_set [of msg_short lw "text" es] msg_distinct(3)
    by (simp add: short_in_six)
  have l: "msg_long \<in> set (fst (generate_suggestions lw text es)) \<longleftrightarrow> length (py_split text) > 700"
    using suggestions_set [of msg_long lw "text" es] msg_distinct(4)
    by (simp add: long_in_six)
  show ?thesis unfolding s l by simp
qed

theorem length_thresholds_strict_witness:
  "length (py_split (concat (replicate 150 (str ''a '')))) = 150
   \<and> msg_short \<notin> set (fst (generate_suggestions ascii_lower (concat (replicate 150 (str ''a ''))) []))
   \<and> length (py_split (concat (replicate 700 (str ''a '')))) = 700
   \<and> msg_long \<notin> set (fst (generate_suggestions ascii_lower (concat (replicate 700 (str ''a ''))) []))
   \<and> length (py_split (concat (replicate 149 (str ''a '')))) = 149
   \<and> msg_short \<in> set (fst (generate_suggestions ascii_lower (concat (replicate 149 (str ''a ''))) []))
   \<and> length (py_split (concat (replicate 701 (str ''a '')))) = 701
   \<and> msg_long \<in> set (fst (generate_suggestions ascii_lower (concat (replicate 701 (str ''a ''))) []))"
  using length_thresholds_strict [of ascii_lower "concat (replicate 150 (str ''a ''))" "[]"]
    length_thresholds_strict [of ascii_lower "concat (replicate 700 (str ''a ''))" "[]"]
    length_thresholds_strict [of ascii_lower "concat (replicate 149 (str ''a ''))" "[]"]
    length_thresholds_strict [of ascii_lower "concat (replicate 701 (str ''a ''))" "[]"]
  unfolding split_words length_replicate by simp

end
